theory Spec2Isabelle
  imports Complex_Main
begin

section \<open>JavaScript numbers\<close>

text \<open>
  A JavaScript number is an IEEE-754 double. The model keeps the three special values
  and idealises the finite doubles as real numbers: no rounding, no overflow, and a
  single zero that behaves as \<open>+0\<close>. Every operator below follows ECMAScript on the
  special values, so that a division by zero yields an infinity or \<open>NaN\<close> as it does
  in the program, never the value \<open>0\<close> that HOL's total division would give.
\<close>

datatype jsnum = NaN | PosInf | NegInf | Fin real

fun js_lt :: "jsnum \<Rightarrow> jsnum \<Rightarrow> bool" where
  "js_lt (Fin a) (Fin b) = (a < b)"
| "js_lt (Fin a) PosInf = True"
| "js_lt NegInf (Fin b) = True"
| "js_lt NegInf PosInf = True"
| "js_lt _ _ = False"

fun js_le :: "jsnum \<Rightarrow> jsnum \<Rightarrow> bool" where
  "js_le (Fin a) (Fin b) = (a \<le> b)"
| "js_le (Fin a) PosInf = True"
| "js_le NegInf (Fin b) = True"
| "js_le NegInf PosInf = True"
| "js_le PosInf PosInf = True"
| "js_le NegInf NegInf = True"
| "js_le _ _ = False"

definition js_gt :: "jsnum \<Rightarrow> jsnum \<Rightarrow> bool" where
  "js_gt a b = js_lt b a"

definition js_ge :: "jsnum \<Rightarrow> jsnum \<Rightarrow> bool" where
  "js_ge a b = js_le b a"

text \<open>Strict equality \<open>===\<close> on numbers: \<open>NaN\<close> equals nothing, itself included.\<close>

fun js_strict_eq :: "jsnum \<Rightarrow> jsnum \<Rightarrow> bool" where
  "js_strict_eq NaN _ = False"
| "js_strict_eq _ NaN = False"
| "js_strict_eq a b = (a = b)"

fun js_neg :: "jsnum \<Rightarrow> jsnum" where
  "js_neg (Fin a) = Fin (- a)"
| "js_neg PosInf = NegInf"
| "js_neg NegInf = PosInf"
| "js_neg NaN = NaN"

fun js_add :: "jsnum \<Rightarrow> jsnum \<Rightarrow> jsnum" where
  "js_add (Fin a) (Fin b) = Fin (a + b)"
| "js_add NaN _ = NaN"
| "js_add _ NaN = NaN"
| "js_add PosInf NegInf = NaN"
| "js_add NegInf PosInf = NaN"
| "js_add PosInf _ = PosInf"
| "js_add _ PosInf = PosInf"
| "js_add NegInf _ = NegInf"
| "js_add _ NegInf = NegInf"

definition js_sub :: "jsnum \<Rightarrow> jsnum \<Rightarrow> jsnum" where
  "js_sub a b = js_add a (js_neg b)"

fun js_mul :: "jsnum \<Rightarrow> jsnum \<Rightarrow> jsnum" where
  "js_mul (Fin a) (Fin b) = Fin (a * b)"
| "js_mul NaN _ = NaN"
| "js_mul _ NaN = NaN"
| "js_mul PosInf (Fin b) = (if b = 0 then NaN else if 0 < b then PosInf else NegInf)"
| "js_mul NegInf (Fin b) = (if b = 0 then NaN else if 0 < b then NegInf else PosInf)"
| "js_mul (Fin a) PosInf = (if a = 0 then NaN else if 0 < a then PosInf else NegInf)"
| "js_mul (Fin a) NegInf = (if a = 0 then NaN else if 0 < a then NegInf else PosInf)"
| "js_mul PosInf PosInf = PosInf"
| "js_mul PosInf NegInf = NegInf"
| "js_mul NegInf PosInf = NegInf"
| "js_mul NegInf NegInf = PosInf"

text \<open>
  Division: a nonzero finite number over zero is an infinity, zero over zero and
  infinity over infinity are \<open>NaN\<close>, and a finite number over an infinity is zero.
\<close>

fun js_div :: "jsnum \<Rightarrow> jsnum \<Rightarrow> jsnum" where
  "js_div (Fin a) (Fin b) =
     (if b = 0 then (if a = 0 then NaN else if 0 < a then PosInf else NegInf)
      else Fin (a / b))"
| "js_div NaN _ = NaN"
| "js_div _ NaN = NaN"
| "js_div (Fin a) _ = Fin 0"
| "js_div PosInf (Fin b) = (if 0 \<le> b then PosInf else NegInf)"
| "js_div NegInf (Fin b) = (if 0 \<le> b then NegInf else PosInf)"
| "js_div _ _ = NaN"

text \<open>\<open>Math.sqrt\<close>, \<open>Math.asin\<close>, \<open>Math.min\<close>, \<open>Math.max\<close>, \<open>Math.PI\<close>.\<close>

fun Math_sqrt :: "jsnum \<Rightarrow> jsnum" where
  "Math_sqrt (Fin a) = (if a < 0 then NaN else Fin (sqrt a))"
| "Math_sqrt PosInf = PosInf"
| "Math_sqrt _ = NaN"


fun Math_min :: "jsnum \<Rightarrow> jsnum \<Rightarrow> jsnum" where
  "Math_min NaN _ = NaN"
| "Math_min _ NaN = NaN"
| "Math_min a b = (if js_lt b a then b else a)"

fun Math_max :: "jsnum \<Rightarrow> jsnum \<Rightarrow> jsnum" where
  "Math_max NaN _ = NaN"
| "Math_max _ NaN = NaN"
| "Math_max a b = (if js_lt a b then b else a)"


section \<open>physics.js\<close>

subsection \<open>Constants\<close>

definition SPEED_OF_SOUND_MPH :: jsnum where
  "SPEED_OF_SOUND_MPH = Fin 767"

definition SPEED_OF_SOUND_KMH :: jsnum where
  "SPEED_OF_SOUND_KMH = Fin 1235"

definition SPEED_OF_SOUND_MS :: jsnum where
  "SPEED_OF_SOUND_MS = Fin 343"

subsection \<open>Mach angle and flight regime\<close>



datatype flight_regime = Subsonic | Sonic | Supersonic

definition getFlightRegime :: "jsnum \<Rightarrow> flight_regime" where
  "getFlightRegime mach =
     (if js_lt mach (Fin 1) then Subsonic
      else if js_strict_eq mach (Fin 1) then Sonic
      else Supersonic)"

subsection \<open>Unit conversion\<close>

text \<open>
  Reading a property of an object literal: an own key gives its number; a key found
  on \<open>Object.prototype\<close> gives a function (or, for \<open>__proto__\<close>, the prototype
  object); any other key gives \<open>undefined\<close>. Converting \<open>undefined\<close>, a function
  or a plain object to a number gives \<open>NaN\<close>.
\<close>

datatype jsval = Undefined | Number jsnum | Object

definition object_prototype_keys :: "string list" where
  "object_prototype_keys =
     [''constructor'', ''hasOwnProperty'', ''isPrototypeOf'', ''propertyIsEnumerable'',
      ''toLocaleString'', ''toString'', ''valueOf'', ''__proto__'',
      ''__defineGetter__'', ''__defineSetter__'', ''__lookupGetter__'', ''__lookupSetter__'']"

definition get_property :: "(string \<times> jsnum) list \<Rightarrow> string \<Rightarrow> jsval" where
  "get_property obj k =
     (case map_of obj k of
        Some v \<Rightarrow> Number v
      | None \<Rightarrow> if k \<in> set object_prototype_keys then Object else Undefined)"

fun ToNumber :: "jsval \<Rightarrow> jsnum" where
  "ToNumber (Number n) = n"
| "ToNumber Undefined = NaN"
| "ToNumber Object = NaN"

definition divisors :: "(string \<times> jsnum) list" where
  "divisors =
     [(''mph'', SPEED_OF_SOUND_MPH), (''kmh'', SPEED_OF_SOUND_KMH), (''ms'', SPEED_OF_SOUND_MS)]"

text \<open>
  The parameter \<open>unit\<close> has the default \<open>'mph'\<close>: \<open>None\<close> is a call that omits it.
\<close>

definition speedToMach :: "jsnum \<Rightarrow> string option \<Rightarrow> jsnum" where
  "speedToMach speed unit_arg =
     (let unit = (case unit_arg of None \<Rightarrow> ''mph'' | Some u \<Rightarrow> u)
      in js_div speed (ToNumber (get_property divisors unit)))"

subsection \<open>Doppler shift\<close>

definition calculateDopplerShift ::
  "jsnum \<Rightarrow> jsnum \<Rightarrow> jsnum \<Rightarrow> jsnum \<Rightarrow> jsnum \<Rightarrow> bool \<Rightarrow> jsnum" where
  "calculateDopplerShift mach observerX observerY sourceX sourceY movingSourceMode =
     (if js_lt mach (Fin 0.01) then Fin 1
      else
        let dx = js_sub observerX sourceX;
            dy = js_sub observerY sourceY;
            distance = Math_sqrt (js_add (js_mul dx dx) (js_mul dy dy))
        in if js_lt distance (Fin 1) then Fin 1
           else
             let dirX = js_div dx distance;
                 motionDirX = Fin 1;
                 alignment = js_mul dirX motionDirX;
                 shift =
                   (if movingSourceMode
                    then js_div (Fin 1)
                           (js_sub (Fin 1) (js_mul (js_mul mach alignment) (Fin 0.5)))
                    else js_add (Fin 1) (js_mul (js_mul mach alignment) (Fin 0.3)))
             in Math_max (Fin 0.3) (Math_min (Fin 3) shift))"

text \<open>
  The divisors of the divisions that \<open>calculateDopplerShift\<close> evaluates, in the order
  of evaluation: none on the two early returns, then \<open>distance\<close> (for \<open>dx / distance\<close>)
  and, in moving-source mode, the denominator \<open>1 - mach * alignment * 0.5\<close>.
\<close>

definition calculateDopplerShift_divisors ::
  "jsnum \<Rightarrow> jsnum \<Rightarrow> jsnum \<Rightarrow> jsnum \<Rightarrow> jsnum \<Rightarrow> bool \<Rightarrow> jsnum list" where
  "calculateDopplerShift_divisors mach observerX observerY sourceX sourceY movingSourceMode =
     (if js_lt mach (Fin 0.01) then []
      else
        let dx = js_sub observerX sourceX;
            dy = js_sub observerY sourceY;
            distance = Math_sqrt (js_add (js_mul dx dx) (js_mul dy dy))
        in if js_lt distance (Fin 1) then []
           else
             let dirX = js_div dx distance;
                 motionDirX = Fin 1;
                 alignment = js_mul dirX motionDirX
             in distance #
                (if movingSourceMode
                 then [js_sub (Fin 1) (js_mul (js_mul mach alignment) (Fin 0.5))]
                 else []))"

subsection \<open>Observer crossing and observed frequency\<close>

definition hasWaveCrossedObserver :: "jsnum \<Rightarrow> jsnum \<Rightarrow> jsnum \<Rightarrow> bool" where
  "hasWaveCrossedObserver radiusBefore radiusAfter distanceToObserver =
     (js_lt radiusBefore distanceToObserver \<and> js_ge radiusAfter distanceToObserver)"

definition distance :: "jsnum \<Rightarrow> jsnum \<Rightarrow> jsnum \<Rightarrow> jsnum \<Rightarrow> jsnum" where
  "distance x1 y1 x2 y2 =
     (let dx = js_sub x2 x1;
          dy = js_sub y2 y1
      in Math_sqrt (js_add (js_mul dx dx) (js_mul dy dy)))"



section \<open>sketch.js\<close>

text \<open>
  The sketch keeps its simulation state in global variables and updates it once per
  animation frame in \<open>draw\<close>. The model passes the state explicitly. Rendering and
  audio are left out; \<open>wavesHitThisFrame\<close> is the local counter of \<open>draw\<close>, and
  \<open>width\<close> is the canvas width of p5.
\<close>

record pulse =
  px :: jsnum
  py :: jsnum
  radius :: jsnum
  birthX :: jsnum

record sketch =
  pulses :: "pulse list"
  mach :: jsnum
  previousMach :: jsnum
  emissionInterval :: jsnum
  frameCounter :: jsnum
  sourceX :: jsnum
  sourceY :: jsnum
  sourceStartX :: jsnum
  paused :: bool
  movingSourceMode :: bool
  barrierFlash :: jsnum
  observerX :: jsnum
  observerY :: jsnum
  observerFlash :: jsnum
  observerWaveHits :: "jsnum list"
  observedFrequency :: jsnum
  sonicBoomFlash :: jsnum
  wavesHitThisFrame :: nat
  width :: jsnum

datatype js_error = TypeError

definition speedOfSound :: jsnum where
  "speedOfSound = Fin 2"

text \<open>The p5 function \<open>dist(x1, y1, x2, y2)\<close>: the Euclidean distance.\<close>

definition p5_dist :: "jsnum \<Rightarrow> jsnum \<Rightarrow> jsnum \<Rightarrow> jsnum \<Rightarrow> jsnum" where
  "p5_dist x1 y1 x2 y2 =
     (let dx = js_sub x2 x1;
          dy = js_sub y2 y1
      in Math_sqrt (js_add (js_mul dx dx) (js_mul dy dy)))"

text \<open>\<open>pulses.splice(i, 1)\<close> removes the element at index \<open>i\<close>.\<close>

definition splice1 :: "'a list \<Rightarrow> nat \<Rightarrow> 'a list" where
  "splice1 xs i = take i xs @ drop (Suc i) xs"

subsection \<open>Decay of the flash values\<close>

text \<open>
  The start of \<open>draw\<close>: each flash value that is above zero is multiplied by its
  factor and set to zero once it falls below 0.01.
\<close>

definition decay_flashes :: "sketch \<Rightarrow> sketch" where
  "decay_flashes s0 =
     (let s1 = (if js_gt (barrierFlash s0) (Fin 0)
                then let b = js_mul (barrierFlash s0) (Fin 0.9)
                     in s0\<lparr>barrierFlash := (if js_lt b (Fin 0.01) then Fin 0 else b)\<rparr>
                else s0);
          s2 = (if js_gt (sonicBoomFlash s1) (Fin 0)
                then let b = js_mul (sonicBoomFlash s1) (Fin 0.85)
                     in s1\<lparr>sonicBoomFlash := (if js_lt b (Fin 0.01) then Fin 0 else b)\<rparr>
                else s1)
      in if js_gt (observerFlash s2) (Fin 0)
         then let b = js_mul (observerFlash s2) (Fin 0.8)
              in s2\<lparr>observerFlash := (if js_lt b (Fin 0.01) then Fin 0 else b)\<rparr>
         else s2)"

subsection \<open>Sound barrier detection\<close>

definition barrierCrossed :: "jsnum \<Rightarrow> jsnum \<Rightarrow> bool" where
  "barrierCrossed prevMach curMach =
     ((js_lt prevMach (Fin 1) \<and> js_ge curMach (Fin 1)) \<or>
      (js_gt prevMach (Fin 1) \<and> js_le curMach (Fin 1)))"

definition read_sliders :: "jsnum \<Rightarrow> jsnum \<Rightarrow> sketch \<Rightarrow> sketch" where
  "read_sliders machSlider_value emissionSlider_value s0 =
     (let s1 = s0\<lparr>previousMach := mach s0\<rparr>;
          s2 = s1\<lparr>mach := machSlider_value\<rparr>;
          s3 = s2\<lparr>emissionInterval := emissionSlider_value\<rparr>
      in if barrierCrossed (previousMach s3) (mach s3)
         then s3\<lparr>barrierFlash := Fin 1\<rparr>
         else s3)"

subsection \<open>Emission and source motion\<close>

definition emit_pulse :: "sketch \<Rightarrow> sketch" where
  "emit_pulse s0 =
     (let s1 = s0\<lparr>frameCounter := js_add (frameCounter s0) (Fin 1)\<rparr>
      in if js_ge (frameCounter s1) (emissionInterval s1)
         then s1\<lparr>pulses := pulses s1 @
                     [\<lparr>px = sourceX s1, py = sourceY s1, radius = Fin 0, birthX = sourceX s1\<rparr>],
                   frameCounter := Fin 0\<rparr>
         else s1)"

definition move_source :: "sketch \<Rightarrow> sketch" where
  "move_source s0 =
     (if movingSourceMode s0
      then let s1 = s0\<lparr>sourceX := js_add (sourceX s0) (js_mul (mach s0) speedOfSound)\<rparr>
           in if js_gt (sourceX s1) (js_add (width s1) (Fin 50))
              then s1\<lparr>sourceX := sourceStartX s1, pulses := []\<rparr>
              else s1
      else s0)"

subsection \<open>The pulse loop\<close>

text \<open>
  The crossing test of the loop, on the four values the loop computes for a pulse.
\<close>

definition crossedInline :: "jsnum \<Rightarrow> jsnum \<Rightarrow> jsnum \<Rightarrow> jsnum \<Rightarrow> bool" where
  "crossedInline radiusBefore radiusAfter distBefore distAfter =
     (js_lt radiusBefore distBefore \<and> js_ge radiusAfter distAfter \<and>
      js_le distAfter radiusAfter \<and> js_ge distBefore radiusBefore)"

text \<open>
  One iteration of the loop, at index \<open>i\<close>, at the clock reading \<open>millis\<close>. Reading
  \<open>pulses[i]\<close> out of range gives \<open>undefined\<close>, and \<open>p.x\<close> then throws a TypeError.
\<close>

definition update_pulse :: "jsnum \<Rightarrow> nat \<Rightarrow> sketch \<Rightarrow> js_error + sketch" where
  "update_pulse millis i s0 =
     (if length (pulses s0) \<le> i then Inl TypeError
      else
        let p0 = pulses s0 ! i;
            distBefore = p5_dist (px p0) (py p0) (observerX s0) (observerY s0);
            p1 = p0\<lparr>radius := js_add (radius p0) speedOfSound\<rparr>;
            p2 = (if \<not> movingSourceMode s0
                  then p1\<lparr>px := js_add (px p1) (js_mul (mach s0) speedOfSound)\<rparr>
                  else p1);
            s1 = s0\<lparr>pulses := (pulses s0)[i := p2]\<rparr>;
            distAfter = p5_dist (px p2) (py p2) (observerX s1) (observerY s1);
            radiusBefore = js_sub (radius p2) speedOfSound;
            radiusAfter = radius p2;
            s2 = (if crossedInline radiusBefore radiusAfter distBefore distAfter
                  then s1\<lparr>wavesHitThisFrame := wavesHitThisFrame s1 + 1,
                          observerWaveHits := observerWaveHits s1 @ [millis],
                          observerFlash := Fin 1\<rparr>
                  else s1);
            s3 = (if js_gt (radius p2) (Fin 600) \<or>
                     js_gt (js_sub (px p2) (radius p2)) (js_add (width s2) (Fin 100))
                  then s2\<lparr>pulses := splice1 (pulses s2) i\<rparr>
                  else s2)
        in Inr s3)"

text \<open>
  \<open>for (let i = pulses.length - 1; i >= 0; i--)\<close>: \<open>pulse_loop n\<close> runs the
  iterations at the indices \<open>n - 1\<close> down to \<open>0\<close>. The clock of p5 is read by
  \<open>millis()\<close>, once for every crossing the loop records and once more after the loop;
  \<open>clock k\<close> is the reading of the call that follows \<open>k\<close> earlier calls in the frame.
  Inside the loop the number of earlier calls is the counter \<open>wavesHitThisFrame\<close>.
\<close>

fun pulse_loop :: "(nat \<Rightarrow> jsnum) \<Rightarrow> nat \<Rightarrow> sketch \<Rightarrow> js_error + sketch" where
  "pulse_loop clock 0 s = Inr s"
| "pulse_loop clock (Suc i) s =
     (case update_pulse (clock (wavesHitThisFrame s)) i s of
        Inl e \<Rightarrow> Inl e
      | Inr s' \<Rightarrow> pulse_loop clock i s')"

definition update_pulses :: "(nat \<Rightarrow> jsnum) \<Rightarrow> sketch \<Rightarrow> js_error + sketch" where
  "update_pulses clock s0 =
     (let s1 = s0\<lparr>wavesHitThisFrame := 0\<rparr>
      in pulse_loop clock (length (pulses s1)) s1)"

subsection \<open>Sonic boom and observed frequency\<close>

definition after_loop :: "(nat \<Rightarrow> jsnum) \<Rightarrow> sketch \<Rightarrow> sketch" where
  "after_loop clock s0 =
     (let s1 = (if 3 \<le> wavesHitThisFrame s0 \<and> js_gt (mach s0) (Fin 1)
                then s0\<lparr>sonicBoomFlash := Fin 1\<rparr>
                else s0);
          now = clock (wavesHitThisFrame s1);
          s2 = s1\<lparr>observerWaveHits :=
                    filter (\<lambda>t. js_lt (js_sub now t) (Fin 2000)) (observerWaveHits s1)\<rparr>
      in if 1 < length (observerWaveHits s2)
         then s2\<lparr>observedFrequency :=
                   js_div (Fin (real (length (observerWaveHits s2)))) (Fin 2)\<rparr>
         else s2\<lparr>observedFrequency := Fin 0\<rparr>)"

subsection \<open>One frame\<close>

text \<open>
  The part of \<open>draw\<close> that changes the simulation state, in the order of the source:
  the decay of the flash values, the sliders and the barrier test, and, unless the
  sketch is paused, the emission, the source motion with its wrap-around, the pulse
  loop, and the sonic boom and frequency update.
\<close>

definition draw ::
  "jsnum \<Rightarrow> jsnum \<Rightarrow> (nat \<Rightarrow> jsnum) \<Rightarrow> sketch \<Rightarrow> js_error + sketch" where
  "draw machSlider_value emissionSlider_value clock s0 =
     (let s1 = read_sliders machSlider_value emissionSlider_value (decay_flashes s0)
      in if \<not> paused s1
         then (case update_pulses clock (move_source (emit_pulse s1)) of
                 Inl e \<Rightarrow> Inl e
               | Inr s2 \<Rightarrow> Inr (after_loop clock s2))
         else Inr s1)"

subsection \<open>The state after setup\<close>

text \<open>
  The initial values of the global variables, with the assignments of \<open>setup\<close>:
  a canvas of 900 by 500, the source at \<open>(150, height / 2)\<close> and the observer at
  \<open>(width - 200, height / 2)\<close>.
\<close>

definition setup_state :: sketch where
  "setup_state =
     \<lparr> pulses = [], mach = Fin 0.5, previousMach = Fin 0.5, emissionInterval = Fin 20,
       frameCounter = Fin 0, sourceX = Fin 150, sourceY = Fin 250, sourceStartX = Fin 150,
       paused = False, movingSourceMode = False, barrierFlash = Fin 0,
       observerX = Fin 700, observerY = Fin 250, observerFlash = Fin 0,
       observerWaveHits = [], observedFrequency = Fin 0, sonicBoomFlash = Fin 0,
       wavesHitThisFrame = 0, width = Fin 900 \<rparr>"

subsection \<open>The loop body, pulse by pulse\<close>

text \<open>
  Three readings of one iteration as functions of the pulse it visits, used to state what
  the whole loop computes: the pulse after its two assignments, the removal test on the
  updated pulse, and the crossing test with the distances taken before and after the
  update. They are shown below to agree with \<open>update_pulse\<close>.
\<close>

definition advanced :: "jsnum \<Rightarrow> bool \<Rightarrow> pulse \<Rightarrow> pulse" where
  "advanced m moving p =
     (let p1 = p\<lparr>radius := js_add (radius p) speedOfSound\<rparr>
      in if \<not> moving then p1\<lparr>px := js_add (px p1) (js_mul m speedOfSound)\<rparr> else p1)"

definition expired :: "jsnum \<Rightarrow> pulse \<Rightarrow> bool" where
  "expired w q =
     (js_gt (radius q) (Fin 600) \<or> js_gt (js_sub (px q) (radius q)) (js_add w (Fin 100)))"

definition crossing :: "jsnum \<Rightarrow> bool \<Rightarrow> jsnum \<Rightarrow> jsnum \<Rightarrow> pulse \<Rightarrow> bool" where
  "crossing m moving ox oy p =
     (let q = advanced m moving p
      in crossedInline (js_sub (radius q) speedOfSound) (radius q)
           (p5_dist (px p) (py p) ox oy) (p5_dist (px q) (py q) ox oy))"

section \<open>Auxiliary facts about the number model\<close>

lemma js_div_NaN_right: "js_div a NaN = NaN"
  by (cases a) simp_all

section \<open>Observer crossing test\<close>

text \<open>
  Claim C2. For all real \<open>radiusBefore\<close>, \<open>radiusAfter\<close> and \<open>distanceToObserver\<close>,
  \<open>hasWaveCrossedObserver\<close> is true if and only if
  \<open>radiusBefore < distanceToObserver\<close> and \<open>radiusAfter \<ge> distanceToObserver\<close>;
  in particular it is true at (50, 60, 55), false at (50, 60, 70) and (60, 70, 55),
  and true at (50, 60, 60): the boundary is inclusive on the upper side only.
\<close>

theorem hasWaveCrossedObserver_iff:
  "(hasWaveCrossedObserver (Fin rb) (Fin ra) (Fin d) \<longleftrightarrow> rb < d \<and> d \<le> ra) \<and>
   hasWaveCrossedObserver (Fin 50) (Fin 60) (Fin 55) \<and>
   \<not> hasWaveCrossedObserver (Fin 50) (Fin 60) (Fin 70) \<and>
   \<not> hasWaveCrossedObserver (Fin 60) (Fin 70) (Fin 55) \<and>
   hasWaveCrossedObserver (Fin 50) (Fin 60) (Fin 60)"
  by (simp add: hasWaveCrossedObserver_def js_ge_def)

theorem hasWaveCrossedObserver_iff_witness:
  "hasWaveCrossedObserver (Fin 7) (Fin 9) (Fin 9) \<and> \<not> hasWaveCrossedObserver (Fin 9) (Fin 11) (Fin 9)"
  using hasWaveCrossedObserver_iff [of 7 9 9] hasWaveCrossedObserver_iff [of 9 11 9] by simp

section \<open>Observed frequency\<close>




section \<open>Sound barrier detection\<close>

text \<open>
  Claim C8, as stated: the barrier signal fires if and only if the flight regimes of
  \<open>previousMach\<close> and \<open>mach\<close> differ. It fails when the previous value is exactly
  sonic: from \<open>previousMach = 1\<close> to \<open>mach = 0.5\<close> the regime changes and the
  signal does not fire.
\<close>

theorem barrierCrossed_leaving_sonic_counterexample:
  "\<not> (barrierCrossed (Fin 1) (Fin 0.5) \<longleftrightarrow> getFlightRegime (Fin 1) \<noteq> getFlightRegime (Fin 0.5))"
  by (simp add: barrierCrossed_def getFlightRegime_def js_gt_def js_ge_def)

text \<open>
  Claim C8, amended. For finite \<open>previousMach\<close> and \<open>mach\<close> the signal fires if and only
  if \<open>previousMach < 1 \<le> mach\<close> or \<open>previousMach > 1 \<ge> mach\<close>, that is, if and only
  if the flight regime changes and the previous regime is not the exactly-sonic one:
  entering the sonic state fires, leaving it does not. Reading the sliders stores the old
  \<open>mach\<close> in \<open>previousMach\<close> and sets \<open>barrierFlash\<close> to 1 exactly on that signal.
\<close>

theorem barrierCrossed_iff_regime_change:
  "(barrierCrossed (Fin p) (Fin m) \<longleftrightarrow> (p < 1 \<and> 1 \<le> m) \<or> (1 < p \<and> m \<le> 1)) \<and>
   (barrierCrossed (Fin p) (Fin m) \<longleftrightarrow>
      getFlightRegime (Fin p) \<noteq> getFlightRegime (Fin m) \<and> getFlightRegime (Fin p) \<noteq> Sonic) \<and>
   previousMach (read_sliders (Fin m) e s) = mach s \<and>
   mach (read_sliders (Fin m) e s) = Fin m \<and>
   barrierFlash (read_sliders (Fin m) e s) =
     (if barrierCrossed (mach s) (Fin m) then Fin 1 else barrierFlash s)"
  by (auto simp add: barrierCrossed_def getFlightRegime_def js_gt_def js_ge_def
      read_sliders_def Let_def)

theorem barrierCrossed_iff_regime_change_witness:
  "barrierCrossed (Fin 0.5) (Fin 1) \<and> barrierCrossed (Fin 2) (Fin 1) \<and>
   \<not> barrierCrossed (Fin 1) (Fin 2) \<and> \<not> barrierCrossed (Fin 1) (Fin 0.5) \<and>
   barrierCrossed (Fin 0.95) (Fin 1.05)"
  using barrierCrossed_iff_regime_change [of "0.5" 1] barrierCrossed_iff_regime_change [of 2 1]
    barrierCrossed_iff_regime_change [of 1 2] barrierCrossed_iff_regime_change [of 1 "0.5"]
    barrierCrossed_iff_regime_change [of "0.95" "1.05"]
  by simp

section \<open>Unit conversion\<close>

text \<open>
  Claim C10. For every speed and every unit string other than \<open>'mph'\<close>, \<open>'kmh'\<close> and
  \<open>'ms'\<close>, \<open>speedToMach\<close> returns not-a-number (no exception, no mach value); the three
  recognised keys divide a finite speed by their constant, and a call without a unit is
  a call with \<open>'mph'\<close>.
\<close>

theorem speedToMach_unknown_unit:
  "(u \<notin> {''mph'', ''kmh'', ''ms''} \<longrightarrow> speedToMach speed (Some u) = NaN) \<and>
   speedToMach (Fin v) (Some ''mph'') = Fin (v / 767) \<and>
   speedToMach (Fin v) (Some ''kmh'') = Fin (v / 1235) \<and>
   speedToMach (Fin v) (Some ''ms'') = Fin (v / 343) \<and>
   speedToMach speed None = speedToMach speed (Some ''mph'')"
  by (auto simp add: speedToMach_def get_property_def divisors_def js_div_NaN_right
      SPEED_OF_SOUND_MPH_def SPEED_OF_SOUND_KMH_def SPEED_OF_SOUND_MS_def)

theorem speedToMach_unknown_unit_witness:
  "''knots'' \<notin> {''mph'', ''kmh'', ''ms''} \<and> speedToMach (Fin 767) (Some ''knots'') = NaN \<and>
   speedToMach (Fin 767) (Some ''toString'') = NaN \<and>
   speedToMach (Fin 767) None = Fin 1"
  using speedToMach_unknown_unit [of "''knots''" "Fin 767" 767]
    speedToMach_unknown_unit [of "''toString''" "Fin 767" 767]
  by simp

section \<open>Mach angle\<close>
























section \<open>Doppler shift\<close>

lemma abs_le_hyp: "\<bar>a\<bar> \<le> sqrt (a * a + b * b)" for a b :: real
proof -
  have "sqrt (a * a) \<le> sqrt (a * a + b * b)"
    by (rule real_sqrt_le_mono) simp
  then show ?thesis by simp
qed

lemma hyp_Fin:
  "Math_sqrt (js_add (js_mul (js_sub (Fin a) (Fin b)) (js_sub (Fin a) (Fin b)))
                     (js_mul (js_sub (Fin c) (Fin d)) (js_sub (Fin c) (Fin d)))) =
   Fin (sqrt ((a - b) * (a - b) + (c - d) * (c - d)))"
proof -
  have "\<not> (a - b) * (a - b) + (c - d) * (c - d) < 0"
    by (simp add: not_less)
  then show ?thesis by (simp add: js_sub_def)
qed

lemma distance_Fin:
  "distance (Fin x1) (Fin y1) (Fin x2) (Fin y2) =
     Fin (sqrt ((x2 - x1) * (x2 - x1) + (y2 - y1) * (y2 - y1)))"
  unfolding distance_def Let_def by (rule hyp_Fin)


lemma sqrt_horizontal: "sqrt ((a - b) * (a - b) + (c - c) * (c - c)) = \<bar>a - b\<bar>" for a b c :: real
  by simp

lemma moving_shift_Fin:
  "Math_max (Fin 0.3) (Math_min (Fin 3)
     (js_div (Fin 1) (js_sub (Fin 1) (js_mul (js_mul (Fin m) (js_mul (Fin al) (Fin 1))) (Fin 0.5))))) =
   (if m * al = 2 then Fin 3 else Fin (max 0.3 (min 3 (1 / (1 - m * al * 0.5)))))"
  by (simp add: js_sub_def max_def min_def)

lemma wind_shift_Fin:
  "Math_max (Fin 0.3) (Math_min (Fin 3)
     (js_add (Fin 1) (js_mul (js_mul (Fin m) (js_mul (Fin al) (Fin 1))) (Fin 0.3)))) =
   Fin (max 0.3 (min 3 (1 + m * al * 0.3)))"
  by (simp add: max_def min_def)

lemma calculateDopplerShift_Fin:
  fixes m ox oy sx sy :: real
  defines "D \<equiv> sqrt ((ox - sx) * (ox - sx) + (oy - sy) * (oy - sy))"
  defines "al \<equiv> (ox - sx) / D"
  shows "calculateDopplerShift (Fin m) (Fin ox) (Fin oy) (Fin sx) (Fin sy) mv =
    (if m < 0.01 \<or> D < 1 then Fin 1
     else if mv then (if m * al = 2 then Fin 3 else Fin (max 0.3 (min 3 (1 / (1 - m * al * 0.5)))))
     else Fin (max 0.3 (min 3 (1 + m * al * 0.3))))"
proof (cases "m < 0.01 \<or> D < 1")
  case True
  then show ?thesis
    unfolding calculateDopplerShift_def Let_def hyp_Fin D_def by auto
next
  case False
  then have D: "D \<noteq> 0" by auto
  have dir: "js_div (Fin (ox - sx)) (Fin D) = Fin al"
    using D by (simp add: al_def)
  have sub: "js_sub (Fin ox) (Fin sx) = Fin (ox - sx)"
    by (simp add: js_sub_def)
  have guards: "\<not> js_lt (Fin m) (Fin 0.01)" "\<not> js_lt (Fin D) (Fin 1)"
    using False by simp_all
  show ?thesis
  proof (cases mv)
    case True
    then show ?thesis
      unfolding calculateDopplerShift_def Let_def hyp_Fin
      unfolding D_def [symmetric] sub
      using False guards by (simp only: if_False if_True dir moving_shift_Fin simp_thms)
  next
    case mvF: False
    then show ?thesis
      unfolding calculateDopplerShift_def Let_def hyp_Fin
      unfolding D_def [symmetric] sub
      using False guards by (simp only: if_False if_True dir wind_shift_Fin simp_thms)
  qed
qed

lemma calculateDopplerShift_divisors_Fin:
  fixes m ox oy sx sy :: real
  defines "D \<equiv> sqrt ((ox - sx) * (ox - sx) + (oy - sy) * (oy - sy))"
  defines "al \<equiv> (ox - sx) / D"
  shows "calculateDopplerShift_divisors (Fin m) (Fin ox) (Fin oy) (Fin sx) (Fin sy) mv =
    (if m < 0.01 \<or> D < 1 then []
     else if mv then [Fin D, Fin (1 - m * al * 0.5)]
     else [Fin D])"
proof (cases "m < 0.01 \<or> D < 1")
  case True
  then show ?thesis
    unfolding calculateDopplerShift_divisors_def Let_def hyp_Fin D_def by auto
next
  case False
  then have D: "D \<noteq> 0" by auto
  have dir: "js_div (Fin (ox - sx)) (Fin D) = Fin al"
    using D by (simp add: al_def)
  have sub: "js_sub (Fin ox) (Fin sx) = Fin (ox - sx)"
    by (simp add: js_sub_def)
  have guards: "\<not> js_lt (Fin m) (Fin 0.01)" "\<not> js_lt (Fin D) (Fin 1)"
    using False by simp_all
  have den: "js_sub (Fin 1) (js_mul (js_mul (Fin m) (js_mul (Fin al) (Fin 1))) (Fin 0.5)) =
      Fin (1 - m * al * 0.5)"
    by (simp add: js_sub_def)
  show ?thesis
  proof (cases mv)
    case True
    then show ?thesis
      unfolding calculateDopplerShift_divisors_def Let_def hyp_Fin
      unfolding D_def [symmetric] sub
      using False guards by (simp only: if_False if_True dir den simp_thms)
  next
    case mvF: False
    then show ?thesis
      unfolding calculateDopplerShift_divisors_def Let_def hyp_Fin
      unfolding D_def [symmetric] sub
      using False guards by (simp only: if_False if_True dir simp_thms)
  qed
qed

lemma alignment_bounds:
  fixes dx dy :: real
  assumes "1 \<le> sqrt (dx * dx + dy * dy)"
  shows "\<bar>dx / sqrt (dx * dx + dy * dy)\<bar> \<le> 1"
    and "0 < dx \<Longrightarrow> 0 < dx / sqrt (dx * dx + dy * dy)"
    and "dx < 0 \<Longrightarrow> dx / sqrt (dx * dx + dy * dy) < 0"
proof -
  let ?D = "sqrt (dx * dx + dy * dy)"
  have D: "0 < ?D" using assms by linarith
  have "\<bar>dx\<bar> \<le> ?D" by (rule abs_le_hyp)
  then show "\<bar>dx / ?D\<bar> \<le> 1" using D by (simp add: abs_divide)
  show "0 < dx \<Longrightarrow> 0 < dx / ?D" using D by (simp add: zero_less_divide_iff)
  show "dx < 0 \<Longrightarrow> dx / ?D < 0" using D by (simp add: divide_less_0_iff)
qed

lemma calculateDopplerShift_horizontal:
  "calculateDopplerShift (Fin m) (Fin ox) (Fin y) (Fin sx) (Fin y) mv =
    (if m < 0.01 \<or> \<bar>ox - sx\<bar> < 1 then Fin 1
     else if mv then (if m * ((ox - sx) / \<bar>ox - sx\<bar>) = 2 then Fin 3
                      else Fin (max 0.3 (min 3 (1 / (1 - m * ((ox - sx) / \<bar>ox - sx\<bar>) * 0.5)))))
     else Fin (max 0.3 (min 3 (1 + m * ((ox - sx) / \<bar>ox - sx\<bar>) * 0.3))))"
  using calculateDopplerShift_Fin [of m ox y sx y mv] unfolding sqrt_horizontal .

lemma calculateDopplerShift_divisors_horizontal:
  "calculateDopplerShift_divisors (Fin m) (Fin ox) (Fin y) (Fin sx) (Fin y) mv =
    (if m < 0.01 \<or> \<bar>ox - sx\<bar> < 1 then []
     else if mv then [Fin \<bar>ox - sx\<bar>, Fin (1 - m * ((ox - sx) / \<bar>ox - sx\<bar>) * 0.5)]
     else [Fin \<bar>ox - sx\<bar>])"
  using calculateDopplerShift_divisors_Fin [of m ox y sx y mv] unfolding sqrt_horizontal .

lemma distance_horizontal: "distance (Fin x1) (Fin y) (Fin x2) (Fin y) = Fin \<bar>x2 - x1\<bar>"
  using distance_Fin [of x1 y x2 y] unfolding sqrt_horizontal .

text \<open>
  The divisor list is tied to the function: the result is obtained from the listed
  divisors by the function's own divisions, for all inputs.
\<close>

lemma calculateDopplerShift_by_divisors:
  "calculateDopplerShift m ox oy sx sy mv =
     (case calculateDopplerShift_divisors m ox oy sx sy mv of
        [] \<Rightarrow> Fin 1
      | [d] \<Rightarrow>
          Math_max (Fin 0.3) (Math_min (Fin 3)
            (js_add (Fin 1)
               (js_mul (js_mul m (js_mul (js_div (js_sub ox sx) d) (Fin 1))) (Fin 0.3))))
      | d # den # rest \<Rightarrow> Math_max (Fin 0.3) (Math_min (Fin 3) (js_div (Fin 1) den)))"
  by (simp add: calculateDopplerShift_def calculateDopplerShift_divisors_def Let_def)

text \<open>
  Claim C3, as stated: for every mach in \<open>[0, 3]\<close> and every position that passes the
  two guards, no division of \<open>calculateDopplerShift\<close> has a zero divisor. It fails at
  \<open>mach = 2\<close> with the observer straight ahead of the source: the alignment is 1 and
  the moving-source denominator \<open>1 - 2 * 1 * 0.5\<close> is zero.
\<close>

theorem calculateDopplerShift_zero_denominator_counterexample:
  "(0 :: real) \<le> 2 \<and> (2 :: real) \<le> 3 \<and> \<not> js_lt (Fin 2) (Fin 0.01) \<and>
   \<not> js_lt (distance (Fin 100) (Fin 50) (Fin 200) (Fin 50)) (Fin 1) \<and>
   calculateDopplerShift_divisors (Fin 2) (Fin 200) (Fin 50) (Fin 100) (Fin 50) True =
     [Fin 100, Fin 0] \<and>
   calculateDopplerShift (Fin 2) (Fin 200) (Fin 50) (Fin 100) (Fin 50) True = Fin 3"
  by (simp add: distance_horizontal calculateDopplerShift_divisors_horizontal
      calculateDopplerShift_horizontal)

text \<open>
  Claim C3, amended. For finite inputs that pass the two guards (\<open>mach \<ge> 0.01\<close>,
  distance \<open>\<ge> 1\<close>), the divisions evaluated are the one by the distance, which is never
  zero, and in moving-source mode, and only there, the one by
  \<open>1 - mach * alignment * 0.5\<close>. That denominator is nonzero whenever \<open>mach < 2\<close>;
  from \<open>mach = 2\<close> on it can be zero, as it is at \<open>mach = 2\<close> with the observer
  straight ahead; and wherever it is zero the quotient is \<open>+Infinity\<close> and the clamp
  returns 3.
\<close>

theorem calculateDopplerShift_zero_divisor_cases:
  "(\<not> js_lt (Fin m) (Fin 0.01) \<and>
    \<not> js_lt (distance (Fin sx) (Fin sy) (Fin ox) (Fin oy)) (Fin 1) \<longrightarrow>
      (\<exists>rest. calculateDopplerShift_divisors (Fin m) (Fin ox) (Fin oy) (Fin sx) (Fin sy) mv =
                distance (Fin sx) (Fin sy) (Fin ox) (Fin oy) # rest \<and>
              length rest = (if mv then 1 else 0)) \<and>
      distance (Fin sx) (Fin sy) (Fin ox) (Fin oy) \<noteq> Fin 0 \<and>
      (m < 2 \<longrightarrow>
         Fin 0 \<notin> set (calculateDopplerShift_divisors (Fin m) (Fin ox) (Fin oy) (Fin sx) (Fin sy) mv)) \<and>
      (Fin 0 \<in> set (calculateDopplerShift_divisors (Fin m) (Fin ox) (Fin oy) (Fin sx) (Fin sy) mv)
         \<longrightarrow> calculateDopplerShift (Fin m) (Fin ox) (Fin oy) (Fin sx) (Fin sy) mv = Fin 3)) \<and>
   Fin 0 \<in> set (calculateDopplerShift_divisors (Fin 2) (Fin 200) (Fin 50) (Fin 100) (Fin 50) True)"
proof (intro conjI impI)
  show "Fin 0 \<in> set (calculateDopplerShift_divisors (Fin 2) (Fin 200) (Fin 50) (Fin 100) (Fin 50) True)"
    by (simp add: calculateDopplerShift_divisors_horizontal)
next
  assume h: "\<not> js_lt (Fin m) (Fin 0.01) \<and>
    \<not> js_lt (distance (Fin sx) (Fin sy) (Fin ox) (Fin oy)) (Fin 1)"
  define D where "D = sqrt ((ox - sx) * (ox - sx) + (oy - sy) * (oy - sy))"
  define t where "t = m * ((ox - sx) / D)"
  let ?ds = "calculateDopplerShift_divisors (Fin m) (Fin ox) (Fin oy) (Fin sx) (Fin sy) mv"
  have dist: "distance (Fin sx) (Fin sy) (Fin ox) (Fin oy) = Fin D"
    by (simp add: distance_Fin D_def)
  from h have g: "\<not> (m < 0.01 \<or> D < 1)" by (simp add: dist)
  then have mpos: "0 < m" and D1: "1 \<le> D" by simp_all
  have ds: "?ds = (if mv then [Fin D, Fin (1 - t * 0.5)] else [Fin D])"
    using g calculateDopplerShift_divisors_Fin [of m ox oy sx sy mv]
    unfolding D_def [symmetric] t_def by (simp only: if_False)
  have val: "calculateDopplerShift (Fin m) (Fin ox) (Fin oy) (Fin sx) (Fin sy) mv = Fin 3"
    if "mv" "t = 2"
    using g that calculateDopplerShift_Fin [of m ox oy sx sy mv]
    unfolding D_def [symmetric] t_def [symmetric] by (simp only: if_False if_True simp_thms)
  have D0: "Fin D \<noteq> Fin 0" using D1 by simp
  have den0: "Fin (1 - t * 0.5) = Fin 0 \<longleftrightarrow> t = 2" by auto
  have zero: "Fin 0 \<in> set ?ds \<longleftrightarrow> mv \<and> t = 2"
  proof (cases mv)
    case True
    then have "?ds = [Fin D, Fin (1 - t * 0.5)]" using ds by (simp only: if_True)
    then show ?thesis using D0 den0 True by auto
  next
    case False
    then have "?ds = [Fin D]" using ds by (simp only: if_False)
    then show ?thesis using D0 False by auto
  qed
  have small: "t \<noteq> 2" if "m < 2"
  proof -
    have "1 \<le> sqrt ((ox - sx) * (ox - sx) + (oy - sy) * (oy - sy))"
      using D1 by (simp add: D_def)
    from alignment_bounds(1) [OF this] have "\<bar>(ox - sx) / D\<bar> \<le> 1"
      unfolding D_def [symmetric] .
    then have "(ox - sx) / D \<le> 1" by linarith
    then have "m * ((ox - sx) / D) \<le> m * 1"
      using mpos by (intro mult_left_mono) simp_all
    then show ?thesis using that by (simp add: t_def)
  qed
  show "\<exists>rest. ?ds = distance (Fin sx) (Fin sy) (Fin ox) (Fin oy) # rest \<and>
              length rest = (if mv then 1 else 0)"
    using ds dist by (cases mv) simp_all
  show "distance (Fin sx) (Fin sy) (Fin ox) (Fin oy) \<noteq> Fin 0"
    using D0 dist by simp
  show "Fin 0 \<notin> set ?ds" if "m < 2"
    using zero small [OF that] by simp
  show "calculateDopplerShift (Fin m) (Fin ox) (Fin oy) (Fin sx) (Fin sy) mv = Fin 3"
    if "Fin 0 \<in> set ?ds"
    using zero val that by simp
qed

theorem calculateDopplerShift_zero_divisor_cases_witness:
  "\<not> js_lt (Fin 1) (Fin 0.01) \<and>
   \<not> js_lt (distance (Fin 100) (Fin 50) (Fin 200) (Fin 50)) (Fin 1) \<and> (1 :: real) < 2 \<and>
   Fin 0 \<notin> set (calculateDopplerShift_divisors (Fin 1) (Fin 200) (Fin 50) (Fin 100) (Fin 50) True) \<and>
   Fin 0 \<in> set (calculateDopplerShift_divisors (Fin 2) (Fin 200) (Fin 50) (Fin 100) (Fin 50) True) \<and>
   calculateDopplerShift (Fin 2) (Fin 200) (Fin 50) (Fin 100) (Fin 50) True = Fin 3"
proof -
  have h1: "\<not> js_lt (Fin 1) (Fin 0.01) \<and>
      \<not> js_lt (distance (Fin 100) (Fin 50) (Fin 200) (Fin 50)) (Fin 1)"
    by (simp add: distance_horizontal)
  have h2: "\<not> js_lt (Fin 2) (Fin 0.01) \<and>
      \<not> js_lt (distance (Fin 100) (Fin 50) (Fin 200) (Fin 50)) (Fin 1)"
    by (simp add: distance_horizontal)
  note t1 = calculateDopplerShift_zero_divisor_cases [of 1 100 50 200 50 True]
  note t2 = calculateDopplerShift_zero_divisor_cases [of 2 100 50 200 50 True]
  from t1 h1 have a: "Fin 0 \<notin> set (calculateDopplerShift_divisors (Fin 1) (Fin 200) (Fin 50)
      (Fin 100) (Fin 50) True)"
    by simp
  from t2 have b: "Fin 0 \<in> set (calculateDopplerShift_divisors (Fin 2) (Fin 200) (Fin 50)
      (Fin 100) (Fin 50) True)"
    by blast
  from t2 h2 b have c: "calculateDopplerShift (Fin 2) (Fin 200) (Fin 50) (Fin 100) (Fin 50) True = Fin 3"
    by blast
  from h1 a b c show ?thesis by simp
qed

text \<open>
  Claim C4: past the two guards, an observer strictly ahead of the rightward motion gets
  a result above 1. The function's own documentation says the same (above 1 is the blue
  shift of an approaching source, and a positive alignment is an observer ahead). The
  code breaks it in moving-source mode: at \<open>mach = 3\<close> with the observer straight ahead,
  \<open>calculateDopplerShift(3, 1000, 50, 50, 50, true)\<close>, the formula gives
  \<open>1 / (1 - 1.5) = -2\<close> and the clamp returns 0.3, a red shift, while the wind-mode
  branch returns a value above 1 at the same input.
\<close>

theorem calculateDopplerShift_ahead_red_shift:
  "\<not> js_lt (Fin 3) (Fin 0.01) \<and>
   \<not> js_lt (distance (Fin 50) (Fin 50) (Fin 1000) (Fin 50)) (Fin 1) \<and>
   js_gt (Fin 1000) (Fin 50) \<and>
   calculateDopplerShift (Fin 3) (Fin 1000) (Fin 50) (Fin 50) (Fin 50) True = Fin 0.3 \<and>
   js_lt (calculateDopplerShift (Fin 3) (Fin 1000) (Fin 50) (Fin 50) (Fin 50) True) (Fin 1) \<and>
   js_gt (calculateDopplerShift (Fin 3) (Fin 1000) (Fin 50) (Fin 50) (Fin 50) False) (Fin 1)"
  by (simp add: distance_horizontal calculateDopplerShift_horizontal js_gt_def)

section \<open>The pulse loop\<close>

lemma splice1_middle:
  "i < length xs \<Longrightarrow> splice1 (take i xs @ a # drop (Suc i) xs) i = take i xs @ drop (Suc i) xs"
  by (simp add: splice1_def)

lemma update_pulse_in_range:
  assumes "i < length (pulses s)"
  defines "q \<equiv> advanced (mach s) (movingSourceMode s) (pulses s ! i)"
  defines "c \<equiv> crossing (mach s) (movingSourceMode s) (observerX s) (observerY s) (pulses s ! i)"
  shows "update_pulse t i s =
    Inr (s\<lparr>pulses := take i (pulses s) @ (if expired (width s) q then [] else [q]) @
                     drop (Suc i) (pulses s),
           observerFlash := (if c then Fin 1 else observerFlash s),
           observerWaveHits := observerWaveHits s @ (if c then [t] else []),
           wavesHitThisFrame := wavesHitThisFrame s + (if c then 1 else 0)\<rparr>)"
  unfolding update_pulse_def q_def c_def crossing_def advanced_def expired_def Let_def
  using assms(1) by (simp add: splice1_middle upd_conv_take_nth_drop)

lemma pulse_loop_pulses:
  "n \<le> length (pulses s) \<Longrightarrow>
   \<exists>s'. pulse_loop clock n s = Inr s' \<and>
        pulses s' =
          filter (\<lambda>q. \<not> expired (width s) q)
            (map (advanced (mach s) (movingSourceMode s)) (take n (pulses s))) @
          drop n (pulses s) \<and>
        wavesHitThisFrame s' =
          wavesHitThisFrame s +
          length (filter (crossing (mach s) (movingSourceMode s) (observerX s) (observerY s))
                    (take n (pulses s))) \<and>
        mach s' = mach s \<and> movingSourceMode s' = movingSourceMode s \<and>
        observerX s' = observerX s \<and> observerY s' = observerY s \<and> width s' = width s"
proof (induction n arbitrary: s)
  case 0
  then show ?case by simp
next
  case (Suc n)
  then have lt: "n < length (pulses s)" by simp
  define t where "t = clock (wavesHitThisFrame s)"
  define q where "q = advanced (mach s) (movingSourceMode s) (pulses s ! n)"
  define c where
    "c = crossing (mach s) (movingSourceMode s) (observerX s) (observerY s) (pulses s ! n)"
  define s1 where "s1 =
     s\<lparr>pulses := take n (pulses s) @ (if expired (width s) q then [] else [q]) @
                     drop (Suc n) (pulses s),
           observerFlash := (if c then Fin 1 else observerFlash s),
           observerWaveHits := observerWaveHits s @ (if c then [t] else []),
           wavesHitThisFrame := wavesHitThisFrame s + (if c then 1 else 0)\<rparr>"
  have step: "update_pulse t n s = Inr s1"
    unfolding s1_def q_def c_def by (rule update_pulse_in_range [OF lt])
  have len: "n \<le> length (pulses s1)" using lt by (simp add: s1_def)
  have tk: "take n (pulses s1) = take n (pulses s)" using lt by (simp add: s1_def)
  have dr: "drop n (pulses s1) = (if expired (width s) q then [] else [q]) @ drop (Suc n) (pulses s)"
    using lt by (simp add: s1_def)
  have env: "mach s1 = mach s" "movingSourceMode s1 = movingSourceMode s"
    "observerX s1 = observerX s" "observerY s1 = observerY s" "width s1 = width s"
    by (simp_all add: s1_def)
  have hits: "wavesHitThisFrame s1 = wavesHitThisFrame s + (if c then 1 else 0)"
    by (simp add: s1_def)
  have tkS: "take (Suc n) (pulses s) = take n (pulses s) @ [pulses s ! n]"
    using lt by (rule take_Suc_conv_app_nth)
  have run: "pulse_loop clock (Suc n) s = pulse_loop clock n s1"
    using step by (simp add: t_def)
  from Suc.IH [OF len] obtain s' where s': "pulse_loop clock n s1 = Inr s'"
    "pulses s' =
          filter (\<lambda>q. \<not> expired (width s1) q)
            (map (advanced (mach s1) (movingSourceMode s1)) (take n (pulses s1))) @
          drop n (pulses s1)"
    "wavesHitThisFrame s' =
          wavesHitThisFrame s1 +
          length (filter (crossing (mach s1) (movingSourceMode s1) (observerX s1) (observerY s1))
                    (take n (pulses s1)))"
    "mach s' = mach s1" "movingSourceMode s' = movingSourceMode s1"
    "observerX s' = observerX s1" "observerY s' = observerY s1" "width s' = width s1"
    by blast
  have p: "pulses s' =
          filter (\<lambda>q. \<not> expired (width s) q)
            (map (advanced (mach s) (movingSourceMode s)) (take (Suc n) (pulses s))) @
          drop (Suc n) (pulses s)"
    using s'(2) unfolding tk dr env tkS by (simp add: q_def)
  have w: "wavesHitThisFrame s' =
          wavesHitThisFrame s +
          length (filter (crossing (mach s) (movingSourceMode s) (observerX s) (observerY s))
                    (take (Suc n) (pulses s)))"
    using s'(3) unfolding tk env tkS hits by (simp add: c_def)
  from run s'(1) p w s'(4-8) env show ?case by simp
qed


lemma advanced_eq:
  "advanced m mv p =
     p\<lparr>radius := js_add (radius p) speedOfSound,
       px := (if mv then px p else js_add (px p) (js_mul m speedOfSound))\<rparr>"
  by (simp add: advanced_def Let_def)


lemma pulses_after_loop: "pulses (after_loop clock s) = pulses s"
  by (simp add: after_loop_def Let_def)

lemma update_pulses_pulses:
  "\<exists>s'. update_pulses clock s = Inr s' \<and>
      pulses s' = filter (\<lambda>q. \<not> expired (width s) q)
               (map (advanced (mach s) (movingSourceMode s)) (pulses s))"
proof -
  have "update_pulses clock s =
      pulse_loop clock (length (pulses s)) (s\<lparr>wavesHitThisFrame := 0\<rparr>)"
    by (simp add: update_pulses_def Let_def)
  then show ?thesis
    using pulse_loop_pulses [of "length (pulses s)" "s\<lparr>wavesHitThisFrame := 0\<rparr>" clock]
    by auto
qed

text \<open>What the frame has done to the fields the loop reads when the loop starts.\<close>

lemma decay_flashes_fields:
  "pulses (decay_flashes s) = pulses s" "paused (decay_flashes s) = paused s"
  "movingSourceMode (decay_flashes s) = movingSourceMode s" "width (decay_flashes s) = width s"
  "mach (decay_flashes s) = mach s" "frameCounter (decay_flashes s) = frameCounter s"
  "sourceX (decay_flashes s) = sourceX s" "sourceY (decay_flashes s) = sourceY s"
  by (simp_all add: decay_flashes_def Let_def)

lemma read_sliders_fields:
  "pulses (read_sliders mv ev s) = pulses s" "paused (read_sliders mv ev s) = paused s"
  "movingSourceMode (read_sliders mv ev s) = movingSourceMode s"
  "width (read_sliders mv ev s) = width s" "mach (read_sliders mv ev s) = mv"
  "emissionInterval (read_sliders mv ev s) = ev"
  "frameCounter (read_sliders mv ev s) = frameCounter s"
  "sourceX (read_sliders mv ev s) = sourceX s" "sourceY (read_sliders mv ev s) = sourceY s"
  by (simp_all add: read_sliders_def Let_def)

lemma emit_pulse_fields:
  "pulses (emit_pulse s) =
     pulses s @
     (if js_ge (js_add (frameCounter s) (Fin 1)) (emissionInterval s)
      then [\<lparr>px = sourceX s, py = sourceY s, radius = Fin 0, birthX = sourceX s\<rparr>] else [])"
  "movingSourceMode (emit_pulse s) = movingSourceMode s" "width (emit_pulse s) = width s"
  "mach (emit_pulse s) = mach s" "sourceX (emit_pulse s) = sourceX s"
  by (simp_all add: emit_pulse_def Let_def)

lemma move_source_fields:
  "pulses (move_source s) =
     (if movingSourceMode s \<and>
         js_gt (js_add (sourceX s) (js_mul (mach s) speedOfSound)) (js_add (width s) (Fin 50))
      then [] else pulses s)"
  "movingSourceMode (move_source s) = movingSourceMode s" "width (move_source s) = width s"
  "mach (move_source s) = mach s"
  by (simp_all add: move_source_def Let_def)

lemma draw_paused:
  "paused s \<Longrightarrow> draw mv ev clock s = Inr (read_sliders mv ev (decay_flashes s))"
  by (simp add: draw_def Let_def read_sliders_fields decay_flashes_fields)

lemma draw_pulses:
  fixes mv ev :: jsnum and clock :: "nat \<Rightarrow> jsnum" and s :: sketch
  assumes "\<not> paused s"
  defines "s1 \<equiv> move_source (emit_pulse (read_sliders mv ev (decay_flashes s)))"
  shows "\<exists>s'. draw mv ev clock s = Inr s' \<and>
      pulses s' = filter (\<lambda>q. \<not> expired (width s1) q)
               (map (advanced (mach s1) (movingSourceMode s1)) (pulses s1))"
proof -
  have np: "\<not> paused (read_sliders mv ev (decay_flashes s))"
    using assms(1) by (simp add: read_sliders_fields decay_flashes_fields)
  obtain s2 where s2: "update_pulses clock s1 = Inr s2"
    "pulses s2 = filter (\<lambda>q. \<not> expired (width s1) q)
               (map (advanced (mach s1) (movingSourceMode s1)) (pulses s1))"
    using update_pulses_pulses [of clock s1] by blast
  have "draw mv ev clock s = Inr (after_loop clock s2)"
    using np s2(1) by (simp add: draw_def Let_def s1_def)
  then show ?thesis using s2(2) by (simp add: pulses_after_loop)
qed

lemma expired_eq:
  "expired w = (\<lambda>q. js_gt (radius q) (Fin 600) \<or>
                     js_gt (js_sub (px q) (radius q)) (js_add w (Fin 100)))"
  by (rule ext) (simp add: expired_def)

lemma advanced_fun_eq:
  "advanced m moving =
     (\<lambda>p. p\<lparr>radius := js_add (radius p) speedOfSound,
             px := (if moving then px p else js_add (px p) (js_mul m speedOfSound))\<rparr>)"
  by (rule ext) (rule advanced_eq)

text \<open>
  Claim C6, as stated: in every tick a pulse is removed exactly when its radius exceeds
  600 or \<open>x - radius\<close> exceeds \<open>width + 100\<close>. It fails in the frame of moving-source
  mode in which the source wraps around: with the source at 950 and mach 1 the source
  passes \<open>width + 50\<close>, the list is emptied, and the pulse at \<open>(930, 250)\<close> of radius 20
  is gone although its updated radius 22 and \<open>x - radius = 908\<close> meet neither test.
\<close>

theorem draw_wrap_around_clears_pulses_counterexample:
  "draw (Fin 1) (Fin 20) (Fin \<circ> real)
     (setup_state\<lparr>pulses := [\<lparr>px = Fin 930, py = Fin 250, radius = Fin 20, birthX = Fin 930\<rparr>],
                   mach := Fin 1, previousMach := Fin 1, frameCounter := Fin 9,
                   sourceX := Fin 950, movingSourceMode := True\<rparr>) =
   Inr (setup_state\<lparr>pulses := [], mach := Fin 1, previousMach := Fin 1,
                      frameCounter := Fin 10, sourceX := Fin 150, movingSourceMode := True\<rparr>) \<and>
   \<not> (js_gt (js_add (Fin 20) speedOfSound) (Fin 600) \<or>
      js_gt (js_sub (Fin 930) (js_add (Fin 20) speedOfSound)) (js_add (Fin 900) (Fin 100)))"
  by (simp add: draw_def decay_flashes_def read_sliders_def barrierCrossed_def emit_pulse_def
      move_source_def update_pulses_def after_loop_def setup_state_def speedOfSound_def
      js_gt_def js_ge_def js_sub_def Let_def)

text \<open>
  Claim C6, amended. In every frame that is not paused, each pulse in the list when the
  loop runs has its radius increased by exactly the constant \<open>speedOfSound\<close> (2),
  whatever \<open>mach\<close> and the mode are, so a finite radius never decreases; in wind mode
  its \<open>x\<close> also grows by \<open>mach * speedOfSound\<close>, in moving-source mode its position
  stays; and the loop removes exactly the updated pulses with \<open>radius > 600\<close> or
  \<open>x - radius > width + 100\<close>, without ever reading an index out of range. The list
  the loop runs on is the list of the previous frame with the pulse emitted in this
  frame, if any; except that in moving-source mode, in the frame in which the advanced
  source passes \<open>width + 50\<close>, all pulses are cleared before the loop. A paused frame
  leaves the list as it is.
\<close>

theorem draw_pulses_advance_retire_wrap:
  "(\<exists>s'. update_pulses clock s = Inr s' \<and>
      pulses s' =
        filter (\<lambda>q. \<not> (js_gt (radius q) (Fin 600) \<or>
                         js_gt (js_sub (px q) (radius q)) (js_add (width s) (Fin 100))))
          (map (\<lambda>p. p\<lparr>radius := js_add (radius p) speedOfSound,
                        px := (if movingSourceMode s then px p
                               else js_add (px p) (js_mul (mach s) speedOfSound))\<rparr>)
             (pulses s))) \<and>
   (\<not> paused s \<longrightarrow>
      (\<exists>s'. draw mv ev clock s = Inr s' \<and>
         pulses s' =
           (if movingSourceMode s \<and>
               js_gt (js_add (sourceX s) (js_mul mv speedOfSound)) (js_add (width s) (Fin 50))
            then []
            else filter (\<lambda>q. \<not> (js_gt (radius q) (Fin 600) \<or>
                         js_gt (js_sub (px q) (radius q)) (js_add (width s) (Fin 100))))
                 (map (\<lambda>p. p\<lparr>radius := js_add (radius p) speedOfSound,
                               px := (if movingSourceMode s then px p
                                      else js_add (px p) (js_mul mv speedOfSound))\<rparr>)
                    (pulses s @
                     (if js_ge (js_add (frameCounter s) (Fin 1)) ev
                      then [\<lparr>px = sourceX s, py = sourceY s, radius = Fin 0,
                              birthX = sourceX s\<rparr>]
                      else [])))))) \<and>
   (paused s \<longrightarrow> (\<exists>s'. draw mv ev clock s = Inr s' \<and> pulses s' = pulses s)) \<and>
   js_add (Fin r) speedOfSound = Fin (r + 2) \<and> r \<le> r + 2"
proof (intro conjI impI)
  show "\<exists>s'. update_pulses clock s = Inr s' \<and>
      pulses s' =
        filter (\<lambda>q. \<not> (js_gt (radius q) (Fin 600) \<or>
                         js_gt (js_sub (px q) (radius q)) (js_add (width s) (Fin 100))))
          (map (\<lambda>p. p\<lparr>radius := js_add (radius p) speedOfSound,
                        px := (if movingSourceMode s then px p
                               else js_add (px p) (js_mul (mach s) speedOfSound))\<rparr>)
             (pulses s))"
    using update_pulses_pulses [of clock s]
    unfolding expired_eq advanced_fun_eq .
next
  assume np: "\<not> paused s"
  define s0 where "s0 = read_sliders mv ev (decay_flashes s)"
  define s1 where "s1 = move_source (emit_pulse s0)"
  have f0: "pulses s0 = pulses s" "movingSourceMode s0 = movingSourceMode s"
    "width s0 = width s" "mach s0 = mv" "emissionInterval s0 = ev"
    "frameCounter s0 = frameCounter s" "sourceX s0 = sourceX s" "sourceY s0 = sourceY s"
    by (simp_all add: s0_def read_sliders_fields decay_flashes_fields)
  have f1: "width s1 = width s" "mach s1 = mv" "movingSourceMode s1 = movingSourceMode s"
    by (simp_all add: s1_def move_source_fields emit_pulse_fields f0)
  have p1: "pulses s1 =
     (if movingSourceMode s \<and>
         js_gt (js_add (sourceX s) (js_mul mv speedOfSound)) (js_add (width s) (Fin 50))
      then []
      else pulses s @
           (if js_ge (js_add (frameCounter s) (Fin 1)) ev
            then [\<lparr>px = sourceX s, py = sourceY s, radius = Fin 0, birthX = sourceX s\<rparr>]
            else []))"
    by (simp add: s1_def move_source_fields emit_pulse_fields f0)
  from draw_pulses [OF np, of mv ev clock]
  obtain s' where s': "draw mv ev clock s = Inr s'"
    "pulses s' = filter (\<lambda>q. \<not> expired (width s1) q)
               (map (advanced (mach s1) (movingSourceMode s1)) (pulses s1))"
    unfolding s1_def s0_def by blast
  have "pulses s' =
           (if movingSourceMode s \<and>
               js_gt (js_add (sourceX s) (js_mul mv speedOfSound)) (js_add (width s) (Fin 50))
            then []
            else filter (\<lambda>q. \<not> expired (width s) q)
                 (map (advanced mv (movingSourceMode s))
                    (pulses s @
                     (if js_ge (js_add (frameCounter s) (Fin 1)) ev
                      then [\<lparr>px = sourceX s, py = sourceY s, radius = Fin 0,
                              birthX = sourceX s\<rparr>]
                      else []))))"
    unfolding s'(2) f1 p1 by simp
  with s'(1)
  show "\<exists>s'. draw mv ev clock s = Inr s' \<and>
         pulses s' =
           (if movingSourceMode s \<and>
               js_gt (js_add (sourceX s) (js_mul mv speedOfSound)) (js_add (width s) (Fin 50))
            then []
            else filter (\<lambda>q. \<not> (js_gt (radius q) (Fin 600) \<or>
                         js_gt (js_sub (px q) (radius q)) (js_add (width s) (Fin 100))))
                 (map (\<lambda>p. p\<lparr>radius := js_add (radius p) speedOfSound,
                               px := (if movingSourceMode s then px p
                                      else js_add (px p) (js_mul mv speedOfSound))\<rparr>)
                    (pulses s @
                     (if js_ge (js_add (frameCounter s) (Fin 1)) ev
                      then [\<lparr>px = sourceX s, py = sourceY s, radius = Fin 0,
                              birthX = sourceX s\<rparr>]
                      else []))))"
    unfolding expired_eq advanced_fun_eq by blast
next
  assume "paused s"
  then show "\<exists>s'. draw mv ev clock s = Inr s' \<and> pulses s' = pulses s"
    by (simp add: draw_paused read_sliders_fields decay_flashes_fields)
next
  show "js_add (Fin r) speedOfSound = Fin (r + 2)"
    by (simp add: speedOfSound_def)
next
  show "r \<le> r + 2" by simp
qed

theorem draw_pulses_advance_retire_wrap_witness:
  "\<not> paused (setup_state\<lparr>pulses := [\<lparr>px = Fin 450, py = Fin 250, radius = Fin 600, birthX = Fin 150\<rparr>,
                                    \<lparr>px = Fin 160, py = Fin 250, radius = Fin 10, birthX = Fin 150\<rparr>]\<rparr>) \<and>
   (\<exists>s'. draw (Fin 0.5) (Fin 20) (Fin \<circ> real)
          (setup_state\<lparr>pulses := [\<lparr>px = Fin 450, py = Fin 250, radius = Fin 600, birthX = Fin 150\<rparr>,
                                    \<lparr>px = Fin 160, py = Fin 250, radius = Fin 10, birthX = Fin 150\<rparr>]\<rparr>)
          = Inr s' \<and>
        pulses s' = [\<lparr>px = Fin 161, py = Fin 250, radius = Fin 12, birthX = Fin 150\<rparr>])"
  using draw_pulses_advance_retire_wrap [of "Fin \<circ> real"
      "setup_state\<lparr>pulses := [\<lparr>px = Fin 450, py = Fin 250, radius = Fin 600, birthX = Fin 150\<rparr>,
                                \<lparr>px = Fin 160, py = Fin 250, radius = Fin 10, birthX = Fin 150\<rparr>]\<rparr>"
      "Fin 0.5" "Fin 20" 10]
  by (simp add: setup_state_def speedOfSound_def js_gt_def js_ge_def js_sub_def)




end
